theory Spec2Isabelle
  imports Main
begin

section \<open>Text\<close>

text \<open>
  Python's \<^verbatim>\<open>str\<close> is embedded as \<^typ>\<open>string\<close>, a text being the bytes of its UTF-8
  encoding, the encoding in which \<^verbatim>\<open>generate_client\<close> writes \<^verbatim>\<open>client.py\<close>. The case
  mappings below are Python's \<^verbatim>\<open>str.upper\<close>, \<^verbatim>\<open>str.lower\<close> and \<^verbatim>\<open>str.capitalize\<close> on ASCII
  text (\<open>ascii_text\<close>) and on ASCII text only: they leave every byte above 127 as it is,
  while Python maps the letters outside ASCII too and may change the length of the text.
  What is proved of \<open>str_upper\<close>, \<open>str_lower\<close> and \<open>str_capitalize\<close>, and of the functions
  built on them, is a statement about the code for ASCII names, titles and enum values.
\<close>

definition is_ascii :: "char \<Rightarrow> bool" where
  "is_ascii c \<longleftrightarrow> (of_char c :: nat) < 128"

definition ascii_text :: "string \<Rightarrow> bool" where
  "ascii_text s \<longleftrightarrow> list_all is_ascii s"

definition is_upper :: "char \<Rightarrow> bool" where
  "is_upper c \<longleftrightarrow> 65 \<le> (of_char c :: nat) \<and> (of_char c :: nat) \<le> 90"

definition is_lower :: "char \<Rightarrow> bool" where
  "is_lower c \<longleftrightarrow> 97 \<le> (of_char c :: nat) \<and> (of_char c :: nat) \<le> 122"

definition is_digit :: "char \<Rightarrow> bool" where
  "is_digit c \<longleftrightarrow> 48 \<le> (of_char c :: nat) \<and> (of_char c :: nat) \<le> 57"

definition upper_char :: "char \<Rightarrow> char" where
  "upper_char c = (if is_lower c then char_of (of_char c - 32 :: nat) else c)"

definition lower_char :: "char \<Rightarrow> char" where
  "lower_char c = (if is_upper c then char_of (of_char c + 32 :: nat) else c)"

definition str_upper :: "string \<Rightarrow> string" where
  "str_upper s = map upper_char s"

definition str_lower :: "string \<Rightarrow> string" where
  "str_lower s = map lower_char s"

text \<open>\<^verbatim>\<open>str.capitalize\<close>: the first character upper-cased, all the others lower-cased.\<close>

fun str_capitalize :: "string \<Rightarrow> string" where
  "str_capitalize [] = []"
| "str_capitalize (c # cs) = upper_char c # str_lower cs"

text \<open>\<^verbatim>\<open>s.replace(old, new)\<close> for a one-character \<^verbatim>\<open>old\<close>.\<close>

definition str_replace :: "char \<Rightarrow> string \<Rightarrow> string \<Rightarrow> string" where
  "str_replace old new s = concat (map (\<lambda>c. if c = old then new else [c]) s)"

text \<open>
  \<^verbatim>\<open>s.split(sep)\<close> for a one-character separator: the result is never empty, and
  adjacent separators give empty segments. The last case of the inner \<open>case\<close> is not
  reached (lemma \<open>str_split_not_Nil\<close>).
\<close>

fun str_split :: "char \<Rightarrow> string \<Rightarrow> string list" where
  "str_split sep [] = [[]]"
| "str_split sep (c # cs) =
     (if c = sep then [] # str_split sep cs
      else (case str_split sep cs of
              w # ws \<Rightarrow> (c # w) # ws
            | [] \<Rightarrow> [[c]]))"

text \<open>\<^verbatim>\<open>d.get(key, default)\<close> on a key that may be absent.\<close>

definition dict_get :: "'a option \<Rightarrow> 'a \<Rightarrow> 'a" where
  "dict_get v dflt = (case v of None \<Rightarrow> dflt | Some x \<Rightarrow> x)"

section \<open>Name normalizer\<close>

definition to_pascal_case :: "string \<Rightarrow> string" where
  "to_pascal_case text =
     concat (map str_capitalize
       (str_split (CHR ''_'')
          (str_replace (CHR '' '') ''_'' (str_replace (CHR ''-'') ''_'' text))))"

text \<open>
  \<^verbatim>\<open>re.sub('(.)([A-Z][a-z]+)', r'\1_\2', text)\<close>: scanning from the left, a character
  other than a newline, followed by an upper-case letter and the longest run of at least
  one lower-case letter, gets an underscore after it; scanning goes on behind the match.
\<close>

function re_sub_word :: "string \<Rightarrow> string" where
  "re_sub_word (c # u # l # rest) =
     (if c \<noteq> CHR 0x0A \<and> is_upper u \<and> is_lower l
      then c # CHR ''_'' # u # l # takeWhile is_lower rest
             @ re_sub_word (dropWhile is_lower rest)
      else c # re_sub_word (u # l # rest))"
| "re_sub_word [c, u] = [c, u]"
| "re_sub_word [c] = [c]"
| "re_sub_word [] = []"
  by pat_completeness auto
termination
  by (relation "measure length") (auto simp: length_dropWhile_le less_Suc_eq_le le_SucI)

text \<open>
  \<^verbatim>\<open>re.sub('([a-z0-9])([A-Z])', r'\1_\2', s1)\<close>: a lower-case letter or digit followed by
  an upper-case letter gets an underscore between the two.
\<close>

fun re_sub_hump :: "string \<Rightarrow> string" where
  "re_sub_hump (a # b # rest) =
     (if (is_lower a \<or> is_digit a) \<and> is_upper b
      then a # CHR ''_'' # b # re_sub_hump rest
      else a # re_sub_hump (b # rest))"
| "re_sub_hump [a] = [a]"
| "re_sub_hump [] = []"

definition to_snake_case :: "string \<Rightarrow> string" where
  "to_snake_case text = str_lower (re_sub_hump (re_sub_word text))"

definition to_kebab_case :: "string \<Rightarrow> string" where
  "to_kebab_case text = str_replace (CHR ''_'') ''-'' (to_snake_case text)"

text \<open>
  The form that the specification calls word-capitalized snake: every word of the snake
  form, the words being what lies between underscores, capitalized, and the words joined.
\<close>

definition word_capitalize :: "string \<Rightarrow> string" where
  "word_capitalize snake = concat (map str_capitalize (str_split (CHR ''_'') snake))"

text \<open>
  Where \<^verbatim>\<open>to_snake_case\<close> finds a word boundary: between a character \<open>c\<close> and an upper-case
  letter \<open>u\<close> behind it, when \<open>c\<close> is a lower-case letter or a digit, or when \<open>c\<close> is not a
  newline and the character behind \<open>u\<close> is a lower-case letter. \<open>insert_boundaries\<close> puts
  an underscore at every boundary, in one pass. \<open>inner_boundary\<close> tells whether a text has
  a boundary behind a character other than an underscore, that is, inside a word.
\<close>

definition boundary :: "char \<Rightarrow> char \<Rightarrow> string \<Rightarrow> bool" where
  "boundary c u rest \<longleftrightarrow>
     is_upper u \<and>
     (is_lower c \<or> is_digit c \<or>
      (c \<noteq> CHR 0x0A \<and> (case rest of [] \<Rightarrow> False | l # t \<Rightarrow> is_lower l)))"

fun insert_boundaries :: "string \<Rightarrow> string" where
  "insert_boundaries (c # u # rest) =
     c # (if boundary c u rest then [CHR ''_''] else []) @ insert_boundaries (u # rest)"
| "insert_boundaries [c] = [c]"
| "insert_boundaries [] = []"

fun inner_boundary :: "string \<Rightarrow> bool" where
  "inner_boundary (c # u # rest) =
     ((c \<noteq> CHR ''_'' \<and> boundary c u rest) \<or> inner_boundary (u # rest))"
| "inner_boundary [c] = False"
| "inner_boundary [] = False"

text \<open>
  Word capitalization in one pass: \<open>at_start\<close> tells whether the next character begins
  a word.
\<close>

fun capitalize_words :: "bool \<Rightarrow> string \<Rightarrow> string" where
  "capitalize_words at_start [] = []"
| "capitalize_words at_start (c # cs) =
     (if c = CHR ''_'' then capitalize_words True cs
      else (if at_start then upper_char c else lower_char c) # capitalize_words False cs)"

text \<open>
  The expression \<^verbatim>\<open>to_pascal_case(title.replace(' ', '')) + 'Client'\<close>, which
  \<^verbatim>\<open>generate_client\<close>, \<^verbatim>\<open>generate_client_code\<close> and \<^verbatim>\<open>generate_readme\<close> each bind to
  \<^verbatim>\<open>client_class_name\<close>.
\<close>

definition client_class_name_of :: "string \<Rightarrow> string" where
  "client_class_name_of title = to_pascal_case (str_replace (CHR '' '') [] title) @ ''Client''"

section \<open>Specification data\<close>

text \<open>
  A schema is the dictionary that \<^verbatim>\<open>json.load\<close> returns; the generator reads the keys
  \<^verbatim>\<open>$ref\<close>, \<^verbatim>\<open>type\<close>, \<^verbatim>\<open>enum\<close>, \<^verbatim>\<open>title\<close>, \<^verbatim>\<open>description\<close>, \<^verbatim>\<open>properties\<close>, \<^verbatim>\<open>required\<close>
  and \<^verbatim>\<open>items\<close>. Each key may be absent (\<open>None\<close>); a key that is present has the JSON type
  the AsyncAPI format gives it. A dictionary keeps the order of the document, so
  \<^verbatim>\<open>properties\<close>, the schema table and the channel table are association lists.
\<close>

datatype schema = Schema
  (schema_ref: "string option")
  (schema_type: "string option")
  (schema_enum: "string list option")
  (schema_title: "string option")
  (schema_description: "string option")
  (schema_properties: "(string \<times> schema) list option")
  (schema_required: "string list option")
  (schema_items: "schema option")

text \<open>The empty dictionary \<^verbatim>\<open>{}\<close>.\<close>

definition empty_schema :: schema where
  "empty_schema = Schema None None None None None None None None"

text \<open>
  A channel is read only through \<^verbatim>\<open>channel.get('messages', {})\<close>, and of a message only
  its name is used; what a message specification holds is left open.
\<close>

datatype 'm channel = Channel (channel_messages: "(string \<times> 'm) list option")

section \<open>Type mapper\<close>

function get_python_type :: "schema \<Rightarrow> (string \<times> schema) list \<Rightarrow> string" where
  "get_python_type schema all_schemas =
     (case schema_ref schema of
        Some r \<Rightarrow> to_pascal_case (last (str_split (CHR ''/'') r))
      | None \<Rightarrow>
          (let schema_type = dict_get (schema_type schema) ''Any'' in
           if schema_type = ''string'' then
             (if schema_enum schema \<noteq> None
              then to_pascal_case (dict_get (schema_title schema) ''UnknownEnum'')
              else ''str'')
           else if schema_type = ''integer'' then ''int''
           else if schema_type = ''number'' then ''float''
           else if schema_type = ''boolean'' then ''bool''
           else if schema_type = ''array'' then
             ''List['' @ get_python_type (dict_get (schema_items schema) empty_schema) all_schemas
               @ '']''
           else if schema_type = ''object'' then ''Dict[str, Any]''
           else ''Any''))"
  by pat_completeness auto
termination
proof (relation "measure (\<lambda>(s, a). 2 * size s + (if schema_type s = Some ''array'' then 1 else 0))",
    goal_cases)
  case 1
  show ?case by simp
next
  case (2 schema all_schemas ty)
  have arr: "schema_type schema = Some ''array''"
  proof (cases "schema_type schema")
    case None
    with 2 show ?thesis by (simp add: dict_get_def)
  next
    case (Some t)
    with 2 show ?thesis by (simp add: dict_get_def)
  qed
  have le: "size (dict_get (schema_items schema) empty_schema) \<le> size schema"
    by (cases schema; cases "schema_items schema"; cases "schema_properties schema")
       (simp_all add: dict_get_def empty_schema_def)
  have "schema_type (dict_get (schema_items schema) empty_schema) \<noteq> Some ''array''
        \<or> size (dict_get (schema_items schema) empty_schema) < size schema"
    by (cases schema; cases "schema_items schema") (simp_all add: dict_get_def empty_schema_def)
  with arr le show ?case by auto
qed

section \<open>Code emitter\<close>

text \<open>The static text of the emitted module, one definition for each template.\<close>

definition module_header :: "string \<Rightarrow> string \<Rightarrow> string" where
  \<open>module_header title description =
     ''"""\<newline>'' @
     ''AsyncAPI WebSocket Client for '' @ title @ ''.\<newline>'' @
     ''\<newline>'' @
     description @ ''\<newline>'' @
     ''\<newline>'' @
     ''This client was automatically generated from an AsyncAPI 3.0.0 specification.\<newline>'' @
     ''"""\<newline>'' @
     ''import json\<newline>'' @
     ''import ssl\<newline>'' @
     ''import threading\<newline>'' @
     ''import time\<newline>'' @
     ''from dataclasses import dataclass\<newline>'' @
     ''from enum import Enum\<newline>'' @
     ''from typing import Any, Callable, Dict, List, Optional\<newline>'' @
     ''\<newline>'' @
     ''try:\<newline>'' @
     ''    import certifi\<newline>'' @
     ''    import websocket\<newline>'' @
     ''except ImportError as e:\<newline>'' @
     ''    print("'' @ [CHR 0xE2, CHR 0x9D, CHR 0x8C] @ '' Missing required dependencies. Install with:")\<newline>'' @
     ''    print("   pip install websocket-client certifi")\<newline>'' @
     ''    print("   or: poetry install")\<newline>'' @
     ''    raise e\<newline>'' @
     ''\<newline>'' @
     ''\<newline>'' @
     ''# Generated Enums\<newline>''\<close>

definition enum_header :: "string \<Rightarrow> string \<Rightarrow> string" where
  \<open>enum_header enum_class_name enum_description =
     ''\<newline>'' @
     ''class '' @ enum_class_name @ ''(Enum):\<newline>'' @
     ''    """'' @ enum_description @ ''."""\<newline>'' @
     ''\<newline>''\<close>

definition dataclass_header :: "string \<Rightarrow> string \<Rightarrow> string" where
  \<open>dataclass_header class_name class_description =
     ''\<newline>'' @
     ''\<newline>'' @
     ''@dataclass\<newline>'' @
     ''class '' @ class_name @ '':\<newline>'' @
     ''    """'' @ class_description @ ''."""\<newline>'' @
     ''\<newline>''\<close>

definition client_class :: "string \<Rightarrow> string \<Rightarrow> string \<Rightarrow> string \<Rightarrow> string" where
  \<open>client_class client_class_name title description server_url =
     ''\<newline>'' @
     ''\<newline>'' @
     ''class '' @ client_class_name @ '':\<newline>'' @
     ''    """\<newline>'' @
     ''    AsyncAPI WebSocket Client for '' @ title @ ''.\<newline>'' @
     ''    \<newline>'' @
     ''    '' @ description @ ''\<newline>'' @
     ''    \<newline>'' @
     ''    This client provides WebSocket connectivity with automatic message routing,\<newline>'' @
     ''    type-safe data handling, and comprehensive error management.\<newline>'' @
     ''    """\<newline>'' @
     ''\<newline>'' @
     ''    def __init__(self, server_url: str = "'' @ server_url @ ''"):\<newline>'' @
     ''        """\<newline>'' @
     ''        Initialize the WebSocket client.\<newline>'' @
     ''        \<newline>'' @
     ''        Args:\<newline>'' @
     ''            server_url: WebSocket server URL (default: '' @ server_url @ '')\<newline>'' @
     ''        """\<newline>'' @
     ''        self.url = server_url\<newline>'' @
     ''        self.ws = None\<newline>'' @
     ''        self.message_handlers: Dict[str, List[Callable]] = {}\<newline>'' @
     ''        self.error_handlers: List[Callable] = []\<newline>'' @
     ''        self.connected = False\<newline>'' @
     ''        self._thread = None\<newline>'' @
     ''        self._should_reconnect = False\<newline>'' @
     ''\<newline>'' @
     ''    def connect(self, auto_reconnect: bool = False) -> bool:\<newline>'' @
     ''        """\<newline>'' @
     ''        Connect to the WebSocket server.\<newline>'' @
     ''        \<newline>'' @
     ''        Args:\<newline>'' @
     ''            auto_reconnect: Whether to automatically reconnect on disconnect\<newline>'' @
     ''            \<newline>'' @
     ''        Returns:\<newline>'' @
     ''            bool: True if connection successful, False otherwise\<newline>'' @
     ''        """\<newline>'' @
     ''        try:\<newline>'' @
     ''            self._should_reconnect = auto_reconnect\<newline>'' @
     ''            \<newline>'' @
     ''            # Create SSL context with certificate verification\<newline>'' @
     ''            ssl_context = ssl.create_default_context(cafile=certifi.where())\<newline>'' @
     ''            ssl_context.check_hostname = False\<newline>'' @
     ''            ssl_context.verify_mode = ssl.CERT_NONE\<newline>'' @
     ''\<newline>'' @
     ''            self.ws = websocket.WebSocketApp(\<newline>'' @
     ''                self.url,\<newline>'' @
     ''                on_open=self._on_open,\<newline>'' @
     ''                on_message=self._on_message,\<newline>'' @
     ''                on_error=self._on_error,\<newline>'' @
     ''                on_close=self._on_close,\<newline>'' @
     ''            )\<newline>'' @
     ''\<newline>'' @
     ''            # Start WebSocket connection in separate thread\<newline>'' @
     ''            self._thread = threading.Thread(\<newline>'' @
     ''                target=self.ws.run_forever,\<newline>'' @
     ''                kwargs={"sslopt": {"cert_reqs": ssl.CERT_NONE}},\<newline>'' @
     ''                daemon=True\<newline>'' @
     ''            )\<newline>'' @
     ''            self._thread.start()\<newline>'' @
     ''\<newline>'' @
     ''            # Wait for connection to establish\<newline>'' @
     ''            time.sleep(1)\<newline>'' @
     ''            return self.connected\<newline>'' @
     ''\<newline>'' @
     ''        except Exception as e:\<newline>'' @
     ''            print(f"'' @ [CHR 0xE2, CHR 0x9D, CHR 0x8C] @ '' Connection failed: {e}")\<newline>'' @
     ''            return False\<newline>'' @
     ''\<newline>'' @
     ''    def disconnect(self) -> None:\<newline>'' @
     ''        """Disconnect from the WebSocket server."""\<newline>'' @
     ''        self._should_reconnect = False\<newline>'' @
     ''        if self.ws:\<newline>'' @
     ''            self.ws.close()\<newline>'' @
     ''        self.connected = False\<newline>'' @
     ''\<newline>'' @
     ''    def wait_for_disconnect(self) -> None:\<newline>'' @
     ''        """Block until the connection is closed."""\<newline>'' @
     ''        if self._thread and self._thread.is_alive():\<newline>'' @
     ''            self._thread.join()\<newline>'' @
     ''\<newline>'' @
     ''    def is_connected(self) -> bool:\<newline>'' @
     ''        """Check if client is currently connected."""\<newline>'' @
     ''        return self.connected\<newline>'' @
     ''\<newline>'' @
     ''    def _on_open(self, ws) -> None:\<newline>'' @
     ''        """Handle WebSocket connection opened."""\<newline>'' @
     ''        self.connected = True\<newline>'' @
     ''        print(f"'' @ [CHR 0xE2, CHR 0x9C, CHR 0x85] @ '' Connected to {self.url}")\<newline>'' @
     ''\<newline>'' @
     ''    def _on_close(self, ws, close_status_code, close_msg) -> None:\<newline>'' @
     ''        """Handle WebSocket connection closed."""\<newline>'' @
     ''        self.connected = False\<newline>'' @
     ''        print(f"'' @ [CHR 0xF0, CHR 0x9F, CHR 0x94, CHR 0x8C] @ '' Disconnected from {self.url} "\<newline>'' @
     ''              f"(code: {close_status_code}, message: {close_msg})")\<newline>'' @
     ''        \<newline>'' @
     ''        if self._should_reconnect:\<newline>'' @
     ''            print("'' @ [CHR 0xF0, CHR 0x9F, CHR 0x94, CHR 0x84] @ '' Attempting to reconnect...")\<newline>'' @
     ''            time.sleep(5)\<newline>'' @
     ''            self.connect(auto_reconnect=True)\<newline>'' @
     ''\<newline>'' @
     ''    def _on_error(self, ws, error) -> None:\<newline>'' @
     ''        """Handle WebSocket error."""\<newline>'' @
     ''        print(f"'' @ [CHR 0xE2, CHR 0x9D, CHR 0x8C] @ '' WebSocket error: {error}")\<newline>'' @
     ''        for handler in self.error_handlers:\<newline>'' @
     ''            try:\<newline>'' @
     ''                handler(error)\<newline>'' @
     ''            except Exception as e:\<newline>'' @
     ''                print(f"'' @ [CHR 0xE2, CHR 0x9D, CHR 0x8C] @ '' Error handler failed: {e}")\<newline>'' @
     ''\<newline>'' @
     ''    def _on_message(self, ws, message: str) -> None:\<newline>'' @
     ''        """Handle incoming WebSocket message."""\<newline>'' @
     ''        try:\<newline>'' @
     ''            data = json.loads(message)\<newline>'' @
     ''            message_type = data.get("type", "unknown")\<newline>'' @
     ''\<newline>'' @
     ''            if message_type in self.message_handlers:\<newline>'' @
     ''                for handler in self.message_handlers[message_type]:\<newline>'' @
     ''                    try:\<newline>'' @
     ''                        handler(data)\<newline>'' @
     ''                    except Exception as e:\<newline>'' @
     ''                        print(f"'' @ [CHR 0xE2, CHR 0x9D, CHR 0x8C] @ '' Message handler error: {e}")\<newline>'' @
     ''            else:\<newline>'' @
     ''                print(f"'' @ [CHR 0xE2, CHR 0x9A, CHR 0xA0] @ [CHR 0xEF, CHR 0xB8, CHR 0x8F] @ ''  No handler for message type: {message_type}")\<newline>'' @
     ''\<newline>'' @
     ''        except json.JSONDecodeError as e:\<newline>'' @
     ''            print(f"'' @ [CHR 0xE2, CHR 0x9D, CHR 0x8C] @ '' Failed to decode message: {e}")\<newline>'' @
     ''            print(f"   Raw message: {message}")\<newline>'' @
     ''\<newline>'' @
     ''    def register_message_handler(\<newline>'' @
     ''        self,\<newline>'' @
     ''        message_type: str,\<newline>'' @
     ''        handler: Callable[[Dict[str, Any]], None]\<newline>'' @
     ''    ) -> None:\<newline>'' @
     ''        """\<newline>'' @
     ''        Register a handler for specific message types.\<newline>'' @
     ''        \<newline>'' @
     ''        Args:\<newline>'' @
     ''            message_type: Type of message to handle\<newline>'' @
     ''            handler: Function to call when message is received\<newline>'' @
     ''        """\<newline>'' @
     ''        if message_type not in self.message_handlers:\<newline>'' @
     ''            self.message_handlers[message_type] = []\<newline>'' @
     ''        self.message_handlers[message_type].append(handler)\<newline>'' @
     ''\<newline>'' @
     ''    def register_error_handler(\<newline>'' @
     ''        self,\<newline>'' @
     ''        handler: Callable[[Exception], None]\<newline>'' @
     ''    ) -> None:\<newline>'' @
     ''        """\<newline>'' @
     ''        Register an error handler.\<newline>'' @
     ''        \<newline>'' @
     ''        Args:\<newline>'' @
     ''            handler: Function to call when errors occur\<newline>'' @
     ''        """\<newline>'' @
     ''        self.error_handlers.append(handler)\<newline>'' @
     ''\<newline>'' @
     ''    def send_message(self, data: Dict[str, Any]) -> bool:\<newline>'' @
     ''        """\<newline>'' @
     ''        Send a message to the server.\<newline>'' @
     ''        \<newline>'' @
     ''        Args:\<newline>'' @
     ''            data: Message data to send\<newline>'' @
     ''            \<newline>'' @
     ''        Returns:\<newline>'' @
     ''            bool: True if message sent successfully, False otherwise\<newline>'' @
     ''        """\<newline>'' @
     ''        if not self.connected or not self.ws:\<newline>'' @
     ''            print("'' @ [CHR 0xE2, CHR 0x9D, CHR 0x8C] @ '' Cannot send message: Not connected to server")\<newline>'' @
     ''            return False\<newline>'' @
     ''\<newline>'' @
     ''        try:\<newline>'' @
     ''            message = json.dumps(data, default=str)\<newline>'' @
     ''            self.ws.send(message)\<newline>'' @
     ''            return True\<newline>'' @
     ''        except Exception as e:\<newline>'' @
     ''            print(f"'' @ [CHR 0xE2, CHR 0x9D, CHR 0x8C] @ '' Failed to send message: {e}")\<newline>'' @
     ''            return False\<newline>'' @
     ''\<newline>'' @
     ''    def send_raw_message(self, message: str) -> bool:\<newline>'' @
     ''        """\<newline>'' @
     ''        Send a raw string message to the server.\<newline>'' @
     ''        \<newline>'' @
     ''        Args:\<newline>'' @
     ''            message: Raw message string to send\<newline>'' @
     ''            \<newline>'' @
     ''        Returns:\<newline>'' @
     ''            bool: True if message sent successfully, False otherwise\<newline>'' @
     ''        """\<newline>'' @
     ''        if not self.connected or not self.ws:\<newline>'' @
     ''            print("'' @ [CHR 0xE2, CHR 0x9D, CHR 0x8C] @ '' Cannot send message: Not connected to server")\<newline>'' @
     ''            return False\<newline>'' @
     ''\<newline>'' @
     ''        try:\<newline>'' @
     ''            self.ws.send(message)\<newline>'' @
     ''            return True\<newline>'' @
     ''        except Exception as e:\<newline>'' @
     ''            print(f"'' @ [CHR 0xE2, CHR 0x9D, CHR 0x8C] @ '' Failed to send raw message: {e}")\<newline>'' @
     ''            return False\<newline>''\<close>

definition message_methods :: "string \<Rightarrow> string \<Rightarrow> string" where
  \<open>message_methods method_name message_name =
     ''\<newline>'' @
     ''    def send_'' @ method_name @ ''(self, payload: Dict[str, Any]) -> bool:\<newline>'' @
     ''        """\<newline>'' @
     ''        Send '' @ message_name @ '' message.\<newline>'' @
     ''        \<newline>'' @
     ''        Args:\<newline>'' @
     ''            payload: Message payload data\<newline>'' @
     ''            \<newline>'' @
     ''        Returns:\<newline>'' @
     ''            bool: True if message sent successfully\<newline>'' @
     ''        """\<newline>'' @
     ''        message_data = {\<newline>'' @
     ''            "type": "'' @ message_name @ ''",\<newline>'' @
     ''            "payload": payload\<newline>'' @
     ''        }\<newline>'' @
     ''        return self.send_message(message_data)\<newline>'' @
     ''\<newline>'' @
     ''    def on_'' @ method_name @ ''(\<newline>'' @
     ''        self, \<newline>'' @
     ''        handler: Callable[[Dict[str, Any]], None]\<newline>'' @
     ''    ) -> None:\<newline>'' @
     ''        """\<newline>'' @
     ''        Register handler for '' @ message_name @ '' messages.\<newline>'' @
     ''        \<newline>'' @
     ''        Args:\<newline>'' @
     ''            handler: Function to call when '' @ message_name @ '' is received\<newline>'' @
     ''        """\<newline>'' @
     ''        self.register_message_handler("'' @ message_name @ ''", handler)\<newline>''\<close>

definition main_header :: "string \<Rightarrow> string \<Rightarrow> string" where
  \<open>main_header title client_class_name =
     ''\<newline>'' @
     ''\<newline>'' @
     ''def main() -> None:\<newline>'' @
     ''    """Example usage of the '' @ title @ '' client."""\<newline>'' @
     ''    client = '' @ client_class_name @ ''()\<newline>'' @
     ''    \<newline>'' @
     ''    print(f"'' @ [CHR 0xF0, CHR 0x9F, CHR 0x9A, CHR 0x80] @ '' Starting {client.__class__.__name__}...")\<newline>'' @
     ''    print(f"   Server URL: {client.url}")\<newline>'' @
     ''    \<newline>'' @
     ''    # Register message handlers\<newline>''\<close>

definition example_handler :: "string \<Rightarrow> string \<Rightarrow> string" where
  \<open>example_handler method_name message_name =
     ''\<newline>'' @
     ''    def handle_'' @ method_name @ ''(data: Dict[str, Any]) -> None:\<newline>'' @
     ''        """Handle '' @ message_name @ '' messages."""\<newline>'' @
     ''        payload = data.get("payload", {})\<newline>'' @
     ''        print(f"'' @ [CHR 0xF0, CHR 0x9F, CHR 0x93, CHR 0xA8] @ '' Received '' @ message_name @ '': {payload}")\<newline>'' @
     ''    \<newline>'' @
     ''    client.on_'' @ method_name @ ''(handle_'' @ method_name @ '')\<newline>''\<close>

definition main_footer :: "string" where
  \<open>main_footer =
     ''\<newline>'' @
     ''    # Register error handler\<newline>'' @
     ''    def handle_error(error: Exception) -> None:\<newline>'' @
     ''        """Handle connection errors."""\<newline>'' @
     ''        print(f"'' @ [CHR 0xE2, CHR 0x9D, CHR 0x8C] @ '' Connection error: {error}")\<newline>'' @
     ''    \<newline>'' @
     ''    client.register_error_handler(handle_error)\<newline>'' @
     ''    \<newline>'' @
     ''    # Connect to server\<newline>'' @
     ''    if client.connect(auto_reconnect=True):\<newline>'' @
     ''        print("'' @ [CHR 0xE2, CHR 0x9C, CHR 0x85] @ '' Connected! Press Ctrl+C to disconnect.")\<newline>'' @
     ''        \<newline>'' @
     ''        # Example: Send a message after connection\<newline>'' @
     ''        # Uncomment and modify as needed:\<newline>'' @
     ''        # client.send_your_message({"example": "data"})\<newline>'' @
     ''        \<newline>'' @
     ''        try:\<newline>'' @
     ''            # Keep client running\<newline>'' @
     ''            client.wait_for_disconnect()\<newline>'' @
     ''        except KeyboardInterrupt:\<newline>'' @
     ''            print("'' @ [CHR 0x5C] @ ''n'' @ [CHR 0xF0, CHR 0x9F, CHR 0x9B, CHR 0x91] @ '' Shutting down...")\<newline>'' @
     ''            client.disconnect()\<newline>'' @
     ''    else:\<newline>'' @
     ''        print("'' @ [CHR 0xE2, CHR 0x9D, CHR 0x8C] @ '' Failed to connect to server")\<newline>'' @
     ''        return 1\<newline>'' @
     ''    \<newline>'' @
     ''    return 0\<newline>'' @
     ''\<newline>'' @
     ''\<newline>'' @
     ''if __name__ == "__main__":\<newline>'' @
     ''    exit(main())\<newline>''\<close>

text \<open>
  The loops of \<^verbatim>\<open>generate_client_code\<close>. Each takes the text built so far (\<^verbatim>\<open>code\<close>) and
  returns it extended, as the statements \<^verbatim>\<open>code += ...\<close> do. The functions that build the
  set \<^verbatim>\<open>required\<close>, or call one that does, take the hash order of the run.
\<close>

text \<open>
  A Python set of strings keeps its elements in an order that follows their hashes, and
  the hash of a string depends on the seed of the interpreter process: the order differs
  from run to run. \<open>hash_order\<close> is that order for one run, and \<open>py_set hash_order xs\<close> is
  the set \<^verbatim>\<open>set(xs)\<close> as this run lays it out. Any order that keeps the elements can be
  the order of some run. The test \<^verbatim>\<open>x in s\<close> does not look at the order. A dictionary
  keeps the order of insertion in every run, so the dictionaries of a specification are
  association lists.
\<close>

type_synonym hash_order = "string list \<Rightarrow> string list"

definition keeps_elements :: "hash_order \<Rightarrow> bool" where
  "keeps_elements hash_order \<longleftrightarrow> (\<forall>xs. set (hash_order xs) = set xs)"

definition py_set :: "hash_order \<Rightarrow> string list \<Rightarrow> string list" where
  "py_set hash_order xs = hash_order (remdups xs)"

definition set_contains :: "string list \<Rightarrow> string \<Rightarrow> bool" where
  "set_contains s x \<longleftrightarrow> x \<in> set s"

definition const_name :: "string \<Rightarrow> string" where
  "const_name enum_value =
     str_replace (CHR ''.'') ''_''
       (str_replace (CHR '' '') ''_''
          (str_replace (CHR ''-'') ''_'' (str_upper enum_value)))"

fun emit_enum_values :: "string list \<Rightarrow> string \<Rightarrow> string" where
  \<open>emit_enum_values [] code = code\<close>
| \<open>emit_enum_values (enum_value # rest) code =
     emit_enum_values rest
       (code @ ''    '' @ const_name enum_value @ '' = "'' @ enum_value @ ''"\<newline>'')\<close>

definition emit_enum :: "string \<Rightarrow> schema \<Rightarrow> string \<Rightarrow> string" where
  "emit_enum schema_name schema code =
     (case schema_enum schema of
        None \<Rightarrow> code
      | Some enum_values \<Rightarrow>
          if schema_type schema = Some ''string'' \<and> enum_values \<noteq> [] then
            (let enum_class_name = to_pascal_case schema_name;
                 enum_description =
                   dict_get (schema_description schema) (''Enum for '' @ schema_name)
             in emit_enum_values enum_values
                  (code @ enum_header enum_class_name enum_description))
          else code)"

fun emit_enums :: "(string \<times> schema) list \<Rightarrow> string \<Rightarrow> string" where
  "emit_enums [] code = code"
| "emit_enums ((schema_name, schema) # rest) code =
     emit_enums rest (emit_enum schema_name schema code)"

definition emit_required_field ::
  "string \<Rightarrow> schema \<Rightarrow> (string \<times> schema) list \<Rightarrow> string \<Rightarrow> string" where
  "emit_required_field prop_name prop_schema schemas code =
     (let prop_type = get_python_type prop_schema schemas;
          prop_desc = dict_get (schema_description prop_schema) [];
          code1 = code @ ''    '' @ prop_name @ '': '' @ prop_type;
          code2 = (if prop_desc \<noteq> [] then code1 @ ''  # '' @ prop_desc else code1)
      in code2 @ ''\<newline>'')"

definition emit_optional_field ::
  "string \<Rightarrow> schema \<Rightarrow> (string \<times> schema) list \<Rightarrow> string \<Rightarrow> string" where
  "emit_optional_field prop_name prop_schema schemas code =
     (let prop_type = get_python_type prop_schema schemas;
          prop_desc = dict_get (schema_description prop_schema) [];
          code1 = code @ ''    '' @ prop_name @ '': Optional['' @ prop_type @ ''] = None'';
          code2 = (if prop_desc \<noteq> [] then code1 @ ''  # '' @ prop_desc else code1)
      in code2 @ ''\<newline>'')"

fun emit_required_fields ::
  "(string \<times> schema) list \<Rightarrow> string list \<Rightarrow> (string \<times> schema) list \<Rightarrow> string \<Rightarrow> string" where
  "emit_required_fields [] required schemas code = code"
| "emit_required_fields ((prop_name, prop_schema) # rest) required schemas code =
     emit_required_fields rest required schemas
       (if set_contains required prop_name
        then emit_required_field prop_name prop_schema schemas code
        else code)"

fun emit_optional_fields ::
  "(string \<times> schema) list \<Rightarrow> string list \<Rightarrow> (string \<times> schema) list \<Rightarrow> string \<Rightarrow> string" where
  "emit_optional_fields [] required schemas code = code"
| "emit_optional_fields ((prop_name, prop_schema) # rest) required schemas code =
     emit_optional_fields rest required schemas
       (if \<not> set_contains required prop_name
        then emit_optional_field prop_name prop_schema schemas code
        else code)"

definition emit_dataclass ::
  "hash_order \<Rightarrow> string \<Rightarrow> schema \<Rightarrow> (string \<times> schema) list \<Rightarrow> string \<Rightarrow> string" where
  "emit_dataclass hash_order schema_name schema schemas code =
     (if schema_type schema = Some ''object'' then
        (let properties = dict_get (schema_properties schema) [];
             required = py_set hash_order (dict_get (schema_required schema) []);
             class_name = to_pascal_case schema_name;
             class_description =
               dict_get (schema_description schema) (''Data class for '' @ schema_name);
             code1 = code @ dataclass_header class_name class_description;
             code2 = emit_required_fields properties required schemas code1
         in emit_optional_fields properties required schemas code2)
      else code)"

fun emit_dataclasses ::
  "hash_order \<Rightarrow> (string \<times> schema) list \<Rightarrow> (string \<times> schema) list \<Rightarrow> string \<Rightarrow> string" where
  "emit_dataclasses hash_order [] schemas code = code"
| "emit_dataclasses hash_order ((schema_name, schema) # rest) schemas code =
     emit_dataclasses hash_order rest schemas
       (emit_dataclass hash_order schema_name schema schemas code)"

fun emit_channel_methods :: "(string \<times> 'm) list \<Rightarrow> string \<Rightarrow> string" where
  "emit_channel_methods [] code = code"
| "emit_channel_methods ((message_name, message_spec) # rest) code =
     emit_channel_methods rest
       (code @ message_methods (str_lower (to_snake_case message_name)) message_name)"

fun emit_message_methods :: "(string \<times> 'm channel) list \<Rightarrow> string \<Rightarrow> string" where
  "emit_message_methods [] code = code"
| "emit_message_methods ((channel_name, channel) # rest) code =
     emit_message_methods rest
       (emit_channel_methods (dict_get (channel_messages channel) []) code)"

fun emit_channel_handlers :: "(string \<times> 'm) list \<Rightarrow> string \<Rightarrow> string" where
  "emit_channel_handlers [] code = code"
| "emit_channel_handlers ((message_name, message_spec) # rest) code =
     emit_channel_handlers rest
       (code @ example_handler (str_lower (to_snake_case message_name)) message_name)"

fun emit_example_handlers :: "(string \<times> 'm channel) list \<Rightarrow> string \<Rightarrow> string" where
  "emit_example_handlers [] code = code"
| "emit_example_handlers ((channel_name, channel) # rest) code =
     emit_example_handlers rest
       (emit_channel_handlers (dict_get (channel_messages channel) []) code)"

definition generate_client_code ::
  "hash_order \<Rightarrow> string \<Rightarrow> string \<Rightarrow> string \<Rightarrow> (string \<times> schema) list
     \<Rightarrow> (string \<times> 'm channel) list \<Rightarrow> string" where
  "generate_client_code hash_order title description server_url schemas channels =
     (let client_class_name = client_class_name_of title;
          code1 = module_header title description;
          code2 = emit_enums schemas code1;
          code3 = code2 @ ''\<newline>\<newline># Generated Data Classes'';
          code4 = emit_dataclasses hash_order schemas schemas code3;
          code5 = code4 @ client_class client_class_name title description server_url;
          code6 = emit_message_methods channels code5;
          code7 = code6 @ main_header title client_class_name;
          code8 = emit_example_handlers channels code7
      in code8 @ main_footer)"

section \<open>Generated client runtime\<close>

text \<open>
  The methods of the client class that the template \<open>client_class\<close> emits, as functions on
  the fields of \<^verbatim>\<open>self\<close>. What the class calls outside itself is a parameter: the decoder
  \<^verbatim>\<open>json.loads\<close>, the encoder \<^verbatim>\<open>json.dumps\<close>, the transport object (\<^verbatim>\<open>websocket.WebSocketApp\<close>
  with its \<^verbatim>\<open>send\<close> and \<^verbatim>\<open>close\<close>) and the registered handlers.

  An exception is a value. Every constructor below is a subclass of Python's \<^verbatim>\<open>Exception\<close>,
  the class that the clauses \<^verbatim>\<open>except Exception\<close> of the template name; the clause
  \<^verbatim>\<open>except json.JSONDecodeError\<close> catches the first constructor only.
\<close>

datatype py_exception =
    JSONDecodeError string
  | AttributeError string
  | TypeError string
  | OtherError string

text \<open>
  A decoded frame. An object lists each of its keys once, as a Python dictionary does;
  a number is an integer.
\<close>

datatype json =
    JNull
  | JBool bool
  | JNumber int
  | JString string
  | JArray "json list"
  | JObject "(string \<times> json) list"

text \<open>The name of the Python type of a decoded value, and a text between single quotes.\<close>

fun type_name :: "json \<Rightarrow> string" where
  "type_name JNull = ''NoneType''"
| "type_name (JBool b) = ''bool''"
| "type_name (JNumber n) = ''int''"
| "type_name (JString s) = ''str''"
| "type_name (JArray xs) = ''list''"
| "type_name (JObject kvs) = ''dict''"

definition quoted :: "string \<Rightarrow> string" where
  "quoted s = CHR 0x27 # s @ [CHR 0x27]"

text \<open>Standard output, one constructor for each \<^verbatim>\<open>print\<close> statement of the class.\<close>

datatype report =
    ConnectionFailed py_exception
  | ConnectedTo string
  | DisconnectedFrom string
  | AttemptingToReconnect
  | WebSocketError py_exception
  | ErrorHandlerFailed py_exception
  | MessageHandlerError py_exception
  | NoHandlerFor json
  | FailedToDecode py_exception string
  | CannotSend
  | FailedToSend py_exception
  | FailedToSendRaw py_exception

text \<open>
  A handler is a callable of the user: it gets the decoded frame, acts on the state
  \<open>'w\<close> of the program around the client, and returns or raises.
\<close>

type_synonym 'w handler = "json \<Rightarrow> 'w \<Rightarrow> (py_exception + unit) \<times> 'w"

type_synonym 'w error_handler = "py_exception \<Rightarrow> 'w \<Rightarrow> (py_exception + unit) \<times> 'w"

text \<open>
  The fields that \<^verbatim>\<open>__init__\<close> sets. \<open>ws\<close> is \<^verbatim>\<open>None\<close> or the transport object in its
  current state \<open>'t\<close>; \<open>threads_started\<close> counts the calls of \<^verbatim>\<open>self._thread.start()\<close>, of
  which \<^verbatim>\<open>self._thread\<close> holds the latest.
\<close>

record ('t, 'w) client =
  url :: string
  ws :: "'t option"
  message_handlers :: "string \<rightharpoonup> 'w handler list"
  error_handlers :: "'w error_handler list"
  connected :: bool
  threads_started :: nat
  should_reconnect :: bool

definition init :: "string \<Rightarrow> ('t, 'w) client" where
  "init server_url =
     \<lparr>url = server_url, ws = None, message_handlers = Map.empty, error_handlers = [],
      connected = False, threads_started = 0, should_reconnect = False\<rparr>"

definition on_open :: "('t, 'w) client \<Rightarrow> report list \<Rightarrow> ('t, 'w) client \<times> report list" where
  "on_open self out = (self\<lparr>connected := True\<rparr>, out @ [ConnectedTo (url self)])"

text \<open>
  \<^verbatim>\<open>connect\<close>: \<open>new_app\<close> stands for building the SSL context and the
  \<^verbatim>\<open>WebSocketApp\<close>, which may raise. The flag is assigned before anything can fail.
  After starting the transport thread the method waits for one second; \<open>handshake\<close>
  tells whether that thread called \<^verbatim>\<open>_on_open\<close> during the wait. The result is the value
  of \<^verbatim>\<open>self.connected\<close> when the wait is over.
\<close>

definition connect ::
  "(string \<Rightarrow> py_exception + 't) \<Rightarrow> bool \<Rightarrow> ('t, 'w) client \<Rightarrow> bool \<Rightarrow> report list
     \<Rightarrow> bool \<times> ('t, 'w) client \<times> report list" where
  "connect new_app handshake self auto_reconnect out =
     (let self1 = self\<lparr>should_reconnect := auto_reconnect\<rparr> in
      case new_app (url self1) of
        Inl e \<Rightarrow> (False, self1, out @ [ConnectionFailed e])
      | Inr app \<Rightarrow>
          (let self2 = self1\<lparr>ws := Some app,
                              threads_started := Suc (threads_started self1)\<rparr>;
               (self3, out3) = (if handshake then on_open self2 out else (self2, out))
           in (connected self3, self3, out3)))"

definition disconnect :: "('t \<Rightarrow> 't) \<Rightarrow> ('t, 'w) client \<Rightarrow> ('t, 'w) client" where
  "disconnect ws_close self =
     (let self1 = self\<lparr>should_reconnect := False\<rparr>;
          self2 = (case ws self1 of
                     None \<Rightarrow> self1
                   | Some app \<Rightarrow> self1\<lparr>ws := Some (ws_close app)\<rparr>)
      in self2\<lparr>connected := False\<rparr>)"

definition is_connected :: "('t, 'w) client \<Rightarrow> bool" where
  "is_connected self = connected self"

text \<open>
  \<^verbatim>\<open>_on_close\<close> runs on the transport's thread and sleeps in the middle, while the caller's
  thread may run \<^verbatim>\<open>disconnect\<close>. The callback is therefore two steps: \<open>on_close_begin\<close> is
  the code up to \<^verbatim>\<open>time.sleep(5)\<close> and tells whether the callback went to sleep,
  \<open>on_close_resume\<close> is the code after the sleep. \<open>on_close\<close> is the callback run with
  nothing in between.
\<close>

definition on_close_begin ::
  "('t, 'w) client \<Rightarrow> report list \<Rightarrow> bool \<times> ('t, 'w) client \<times> report list" where
  "on_close_begin self out =
     (let self1 = self\<lparr>connected := False\<rparr>;
          out1 = out @ [DisconnectedFrom (url self1)]
      in if should_reconnect self1
         then (True, self1, out1 @ [AttemptingToReconnect])
         else (False, self1, out1))"

definition on_close_resume ::
  "(string \<Rightarrow> py_exception + 't) \<Rightarrow> bool \<Rightarrow> ('t, 'w) client \<Rightarrow> report list
     \<Rightarrow> ('t, 'w) client \<times> report list" where
  "on_close_resume new_app handshake self out = snd (connect new_app handshake self True out)"

definition on_close ::
  "(string \<Rightarrow> py_exception + 't) \<Rightarrow> bool \<Rightarrow> ('t, 'w) client \<Rightarrow> report list
     \<Rightarrow> ('t, 'w) client \<times> report list" where
  "on_close new_app handshake self out =
     (case on_close_begin self out of
        (True, self1, out1) \<Rightarrow> on_close_resume new_app handshake self1 out1
      | (False, self1, out1) \<Rightarrow> (self1, out1))"

text \<open>The loop \<^verbatim>\<open>for handler in self.message_handlers[message_type]\<close> with its \<^verbatim>\<open>try\<close>.\<close>

fun run_handlers ::
  "'w handler list \<Rightarrow> json \<Rightarrow> 'w \<Rightarrow> report list \<Rightarrow> 'w \<times> report list" where
  "run_handlers [] data w out = (w, out)"
| "run_handlers (handler # rest) data w out =
     (case handler data w of
        (Inr u, w1) \<Rightarrow> run_handlers rest data w1 out
      | (Inl e, w1) \<Rightarrow> run_handlers rest data w1 (out @ [MessageHandlerError e]))"

text \<open>
  \<^verbatim>\<open>message_type in self.message_handlers\<close> and, behind it,
  \<^verbatim>\<open>self.message_handlers[message_type]\<close>, as one lookup: the keys of the registry are
  strings; a list or a dictionary cannot be hashed, and asking for it raises.
\<close>

definition dict_lookup :: "(string \<rightharpoonup> 'a) \<Rightarrow> json \<Rightarrow> py_exception + 'a option" where
  "dict_lookup d k =
     (case k of
        JString s \<Rightarrow> Inr (d s)
      | JArray xs \<Rightarrow> Inl (TypeError (''unhashable type: '' @ quoted (type_name k)))
      | JObject kvs \<Rightarrow> Inl (TypeError (''unhashable type: '' @ quoted (type_name k)))
      | _ \<Rightarrow> Inr None)"

text \<open>
  \<^verbatim>\<open>_on_message\<close>. Only a \<^verbatim>\<open>JSONDecodeError\<close> is caught around the body; \<^verbatim>\<open>data.get\<close>
  exists on a dictionary only. The method assigns no field of \<^verbatim>\<open>self\<close>.
\<close>

definition on_message ::
  "(string \<Rightarrow> py_exception + json) \<Rightarrow> ('t, 'w) client \<Rightarrow> string \<Rightarrow> 'w \<Rightarrow> report list
     \<Rightarrow> (py_exception + unit) \<times> ('t, 'w) client \<times> 'w \<times> report list" where
  "on_message loads self message w out =
     (case loads message of
        Inl (JSONDecodeError m) \<Rightarrow>
          (Inr (), self, w, out @ [FailedToDecode (JSONDecodeError m) message])
      | Inl e \<Rightarrow> (Inl e, self, w, out)
      | Inr (JObject members) \<Rightarrow>
          (let message_type = dict_get (map_of members ''type'') (JString ''unknown'') in
           case dict_lookup (message_handlers self) message_type of
             Inl e \<Rightarrow> (Inl e, self, w, out)
           | Inr None \<Rightarrow> (Inr (), self, w, out @ [NoHandlerFor message_type])
           | Inr (Some handlers) \<Rightarrow>
               (case run_handlers handlers (JObject members) w out of
                  (w1, out1) \<Rightarrow> (Inr (), self, w1, out1)))
      | Inr data \<Rightarrow>
          (Inl (AttributeError
                  (quoted (type_name data) @ '' object has no attribute '' @ quoted ''get'')),
           self, w, out))"

definition register_message_handler ::
  "('t, 'w) client \<Rightarrow> string \<Rightarrow> 'w handler \<Rightarrow> ('t, 'w) client" where
  "register_message_handler self message_type handler =
     (let handlers1 = (if message_handlers self message_type = None
                       then (message_handlers self)(message_type \<mapsto> [])
                       else message_handlers self)
      in self\<lparr>message_handlers :=
                 handlers1(message_type \<mapsto> dict_get (handlers1 message_type) [] @ [handler])\<rparr>)"

definition register_error_handler ::
  "('t, 'w) client \<Rightarrow> 'w error_handler \<Rightarrow> ('t, 'w) client" where
  "register_error_handler self handler =
     self\<lparr>error_handlers := error_handlers self @ [handler]\<rparr>"

text \<open>
  \<^verbatim>\<open>send_message\<close>: \<open>dumps\<close> is \<^verbatim>\<open>json.dumps(data, default=str)\<close> and \<open>ws_send\<close> the
  transport's \<^verbatim>\<open>send\<close>; either may raise. The result is a sum, so that an exception
  leaving the method would be the value \<open>Inl\<close>.
\<close>

definition send_message ::
  "('d \<Rightarrow> py_exception + string) \<Rightarrow> (string \<Rightarrow> 't \<Rightarrow> (py_exception + unit) \<times> 't)
     \<Rightarrow> ('t, 'w) client \<Rightarrow> 'd \<Rightarrow> report list
     \<Rightarrow> (py_exception + bool) \<times> ('t, 'w) client \<times> report list" where
  "send_message dumps ws_send self data out =
     (case ws self of
        None \<Rightarrow> (Inr False, self, out @ [CannotSend])
      | Some app \<Rightarrow>
          if \<not> connected self then (Inr False, self, out @ [CannotSend])
          else
            (case dumps data of
               Inl e \<Rightarrow> (Inr False, self, out @ [FailedToSend e])
             | Inr message \<Rightarrow>
                 (case ws_send message app of
                    (Inl e, app1) \<Rightarrow>
                      (Inr False, self\<lparr>ws := Some app1\<rparr>, out @ [FailedToSend e])
                  | (Inr u, app1) \<Rightarrow> (Inr True, self\<lparr>ws := Some app1\<rparr>, out))))"



section \<open>Example values\<close>






definition open_app :: "string \<Rightarrow> py_exception + string list" where
  "open_app server_url = Inr []"

definition close_app :: "string list \<Rightarrow> string list" where
  "close_app sent = sent"



definition fresh_client :: "(string list, nat list) client" where
  "fresh_client = init ''wss://127.0.0.1''"

text \<open>The client after \<^verbatim>\<open>connect(auto_reconnect=True)\<close> with a completed handshake.\<close>

definition live_client :: "(string list, nat list) client" where
  "live_client = fst (snd (connect open_app True fresh_client True []))"


text \<open>Two hash orders: the order of the list, and its reverse.\<close>

definition listed_order :: hash_order where
  "listed_order xs = xs"

definition reversed_order :: hash_order where
  "reversed_order xs = rev xs"

section \<open>Properties of the name normalizer\<close>

lemma str_split_not_Nil: "str_split sep s \<noteq> []"
  by (induction s) (auto split: list.splits)

lemma str_split_no_sep: "sep \<notin> set s \<Longrightarrow> str_split sep s = [s]"
  by (induction s) auto

lemma str_replace_absent: "old \<notin> set s \<Longrightarrow> str_replace old new s = s"
  by (induction s) (auto simp: str_replace_def)

lemma str_replace_delete: "str_replace old [] s = filter (\<lambda>c. c \<noteq> old) s"
  by (induction s) (auto simp: str_replace_def)

lemma str_replace_char: "str_replace old [new] s = map (\<lambda>c. if c = old then new else c) s"
  by (induction s) (auto simp: str_replace_def)

lemma of_char_lower_char: "is_upper c \<Longrightarrow> (of_char (lower_char c) :: nat) = of_char c + 32"
  by (simp add: lower_char_def is_upper_def)

lemma of_char_upper_char: "is_lower c \<Longrightarrow> (of_char (upper_char c) :: nat) = of_char c - 32"
proof -
  assume l: "is_lower c"
  then have "(of_char c :: nat) - 32 < 256" unfolding is_lower_def by arith
  then have "((of_char c :: nat) - 32) mod 256 = of_char c - 32" by (rule mod_less)
  with l show ?thesis by (simp add: upper_char_def)
qed

lemma not_upper_lower_char: "\<not> is_upper (lower_char c)"
proof (cases "is_upper c")
  case True
  then show ?thesis using of_char_lower_char [OF True] by (simp add: is_upper_def)
next
  case False
  then show ?thesis by (simp add: lower_char_def)
qed

lemma upper_lower_char: "upper_char (lower_char c) = upper_char c"
proof (cases "is_upper c")
  case True
  have low: "is_lower (lower_char c)"
    using True of_char_lower_char [OF True] by (simp add: is_lower_def is_upper_def)
  have "(of_char (upper_char (lower_char c)) :: nat) = of_char c"
    using of_char_upper_char [OF low] of_char_lower_char [OF True] by simp
  then have "upper_char (lower_char c) = c" by simp
  moreover have "\<not> is_lower c" using True by (simp add: is_lower_def is_upper_def)
  ultimately show ?thesis by (simp add: upper_char_def)
next
  case False
  then show ?thesis by (simp add: lower_char_def)
qed

lemma lower_lower_char: "lower_char (lower_char c) = lower_char c"
  using not_upper_lower_char [of c] by (simp add: lower_char_def [of "lower_char c"])

lemma lower_char_eq_underscore: "lower_char c = CHR ''_'' \<longleftrightarrow> c = CHR ''_''"
proof (cases "is_upper c")
  case True
  have "(of_char (lower_char c) :: nat) \<noteq> of_char (CHR ''_'')"
    using True of_char_lower_char [OF True] by (simp add: is_upper_def)
  then have "lower_char c \<noteq> CHR ''_''" by auto
  moreover have "c \<noteq> CHR ''_''" using True by (auto simp: is_upper_def)
  ultimately show ?thesis by simp
next
  case False
  then show ?thesis by (simp add: lower_char_def)
qed

lemma str_capitalize_lower: "str_capitalize (str_lower w) = str_capitalize w"
  by (cases w) (simp_all add: str_lower_def upper_lower_char lower_lower_char)

lemma str_split_lower:
  "str_split (CHR ''_'') (str_lower s) = map str_lower (str_split (CHR ''_'') s)"
proof (induction s)
  case Nil
  show ?case by (simp add: str_lower_def)
next
  case (Cons c cs)
  then show ?case
    using str_split_not_Nil [of "CHR ''_''" cs]
    by (cases "str_split (CHR ''_'') cs")
       (auto simp: str_lower_def lower_char_eq_underscore)
qed

lemma to_pascal_case_plain:
  assumes "CHR ''-'' \<notin> set x" and "CHR '' '' \<notin> set x"
  shows "to_pascal_case x = word_capitalize x"
  using assms by (simp add: to_pascal_case_def word_capitalize_def str_replace_absent)

lemma map_capitalize_lower: "map str_capitalize (map str_lower segs) = map str_capitalize segs"
  by (induction segs) (simp_all add: str_capitalize_lower)

lemma word_capitalize_lower: "word_capitalize (str_lower x) = word_capitalize x"
  by (simp only: word_capitalize_def str_split_lower map_capitalize_lower)

lemma upper_not_lower: "is_upper c \<Longrightarrow> \<not> is_lower c"
  by (simp add: is_upper_def is_lower_def)

lemma upper_not_digit: "is_upper c \<Longrightarrow> \<not> is_digit c"
  by (simp add: is_upper_def is_digit_def)

lemma upper_not_underscore: "is_upper c \<Longrightarrow> c \<noteq> CHR ''_''"
  by (auto simp: is_upper_def)

lemma lower_not_underscore: "is_lower c \<Longrightarrow> c \<noteq> CHR ''_''"
  by (auto simp: is_lower_def)

lemma re_sub_hump_step:
  "re_sub_hump (a # b # rest) =
     a # (if (is_lower a \<or> is_digit a) \<and> is_upper b then [CHR ''_''] else [])
       @ re_sub_hump (b # rest)"
proof (cases "(is_lower a \<or> is_digit a) \<and> is_upper b")
  case True
  then have "re_sub_hump (b # rest) = b # re_sub_hump rest"
    by (cases rest) (auto dest: upper_not_lower upper_not_digit)
  with True show ?thesis by simp
next
  case False
  then show ?thesis by auto
qed

lemma re_sub_word_head: "\<exists>t. re_sub_word (d # s) = d # t"
proof (cases s)
  case Nil
  then show ?thesis by simp
next
  case (Cons u s1)
  then show ?thesis by (cases s1) auto
qed

lemma insert_boundaries_head: "\<exists>t. insert_boundaries (d # s) = d # t"
  by (cases s) auto

lemma re_sub_hump_before_word:
  "re_sub_hump (a # re_sub_word s) =
     a # (if s \<noteq> [] \<and> (is_lower a \<or> is_digit a) \<and> is_upper (hd s) then [CHR ''_''] else [])
       @ re_sub_hump (re_sub_word s)"
proof (cases s)
  case Nil
  then show ?thesis by simp
next
  case (Cons d s1)
  obtain t where t: "re_sub_word (d # s1) = d # t"
    using re_sub_word_head by blast
  show ?thesis
    unfolding Cons t by (simp only: re_sub_hump_step list.sel) simp
qed

lemma lower_run:
  assumes "is_lower l" and "\<forall>c \<in> set run. is_lower c"
    and "follow = [] \<or> \<not> is_lower (hd follow)"
    and "re_sub_hump (re_sub_word follow) = insert_boundaries follow"
  shows "re_sub_hump (l # run @ re_sub_word follow) = insert_boundaries (l # run @ follow)"
  using assms
proof (induction run arbitrary: l)
  case Nil
  show ?case
  proof (cases follow)
    case Nil
    then show ?thesis by simp
  next
    case (Cons d f1)
    have "boundary l d f1 \<longleftrightarrow> is_upper d"
      using Nil.prems(1) by (simp add: boundary_def)
    then show ?thesis
      using Nil.prems(1,4) re_sub_hump_before_word [of l follow]
      by (simp add: Cons)
  qed
next
  case (Cons t run)
  have t: "is_lower t" using Cons.prems(2) by simp
  then have nb: "\<not> boundary l t (run @ follow)"
    by (auto simp: boundary_def dest: upper_not_lower)
  have "re_sub_hump (l # t # run @ re_sub_word follow) =
          l # re_sub_hump (t # run @ re_sub_word follow)"
    using t by (auto dest: upper_not_lower)
  also have "re_sub_hump (t # run @ re_sub_word follow) = insert_boundaries (t # run @ follow)"
    using Cons.IH [of t] t Cons.prems by simp
  finally show ?case using nb by simp
qed

text \<open>The two substitutions of \<^verbatim>\<open>to_snake_case\<close> together put an underscore at every boundary.\<close>

lemma two_passes: "re_sub_hump (re_sub_word x) = insert_boundaries x"
proof (induction x rule: re_sub_word.induct)
  case (1 c u l rest)
  show ?case
  proof (cases "c \<noteq> CHR 0x0A \<and> is_upper u \<and> is_lower l")
    case True
    let ?run = "takeWhile is_lower rest"
    let ?follow = "dropWhile is_lower rest"
    have rest: "rest = ?run @ ?follow" by simp
    have f: "?follow = [] \<or> \<not> is_lower (hd ?follow)"
      using hd_dropWhile [of is_lower rest] by blast
    have r: "\<forall>c \<in> set ?run. is_lower c"
      by (auto dest: set_takeWhileD)
    have ih: "re_sub_hump (re_sub_word ?follow) = insert_boundaries ?follow"
      using "1.IH"(1) True by simp
    have run: "re_sub_hump (l # ?run @ re_sub_word ?follow) = insert_boundaries (l # rest)"
      using lower_run [OF _ r f ih, of l] True by simp
    have w: "re_sub_word (c # u # l # rest) =
               c # CHR ''_'' # u # l # ?run @ re_sub_word ?follow"
      using True by simp
    have h: "re_sub_hump (c # CHR ''_'' # u # l # ?run @ re_sub_word ?follow) =
               c # CHR ''_'' # u # re_sub_hump (l # ?run @ re_sub_word ?follow)"
      using True
      by (simp only: re_sub_hump_step [of c] re_sub_hump_step [of "CHR ''_''"]
            re_sub_hump_step [of u])
         (auto simp: is_upper_def is_lower_def is_digit_def)
    have b1: "boundary c u (l # rest)" using True by (simp add: boundary_def)
    have b2: "\<not> boundary u l rest"
      using True by (auto simp: boundary_def dest: upper_not_lower)
    show ?thesis
      unfolding w h run using b1 b2 by simp
  next
    case False
    have ih: "re_sub_hump (re_sub_word (u # l # rest)) = insert_boundaries (u # l # rest)"
      using "1.IH"(2) False by simp
    have w: "re_sub_word (c # u # l # rest) = c # re_sub_word (u # l # rest)"
      by (simp only: re_sub_word.simps False if_False)
    have b: "boundary c u (l # rest) \<longleftrightarrow> (is_lower c \<or> is_digit c) \<and> is_upper u"
      using False by (auto simp: boundary_def)
    show ?thesis
      unfolding w using re_sub_hump_before_word [of c "u # l # rest"] ih b by simp
  qed
next
  case (2 c u)
  show ?case by (auto simp: boundary_def)
next
  case (3 c)
  show ?case by simp
next
  case 4
  show ?case by simp
qed

lemma to_snake_case_boundaries: "to_snake_case x = str_lower (insert_boundaries x)"
  by (simp add: to_snake_case_def two_passes)

lemma capitalize_words_split:
  "capitalize_words True s = concat (map str_capitalize (str_split (CHR ''_'') s)) \<and>
   capitalize_words False s =
     str_lower (hd (str_split (CHR ''_'') s))
       @ concat (map str_capitalize (tl (str_split (CHR ''_'') s)))"
proof (induction s)
  case Nil
  show ?case by (simp add: str_lower_def)
next
  case (Cons c s)
  obtain w segs where sp: "str_split (CHR ''_'') s = w # segs"
    using str_split_not_Nil [of "CHR ''_''" s] by (cases "str_split (CHR ''_'') s") auto
  show ?case
    using Cons by (simp add: sp str_lower_def)
qed

lemma word_capitalize_words: "word_capitalize s = capitalize_words True s"
  by (simp add: word_capitalize_def capitalize_words_split)

lemma not_letter_case:
  assumes "\<not> is_upper k" and "\<not> is_lower k"
  shows "(lower_char d = k \<longleftrightarrow> d = k) \<and> (upper_char d = k \<longleftrightarrow> d = k)"
proof -
  have l: "lower_char d = k \<longleftrightarrow> d = k"
  proof (cases "is_upper d")
    case True
    then have "is_lower (lower_char d)"
      using of_char_lower_char [OF True] by (simp add: is_lower_def is_upper_def)
    with assms True show ?thesis by auto
  next
    case False
    then show ?thesis by (simp add: lower_char_def)
  qed
  have u: "upper_char d = k \<longleftrightarrow> d = k"
  proof (cases "is_lower d")
    case True
    then have "is_upper (upper_char d)"
      using of_char_upper_char [OF True] unfolding is_lower_def is_upper_def by arith
    with assms True show ?thesis by auto
  next
    case False
    then show ?thesis by (simp add: upper_char_def)
  qed
  from l u show ?thesis by simp
qed

lemma lower_char_upper_neq: "is_upper u \<Longrightarrow> lower_char u \<noteq> upper_char u"
proof -
  assume u: "is_upper u"
  have "(of_char (lower_char u) :: nat) \<noteq> of_char u"
    using of_char_lower_char [OF u] by simp
  then have "lower_char u \<noteq> u" by auto
  moreover have "upper_char u = u"
    using u by (simp add: upper_char_def upper_not_lower)
  ultimately show ?thesis by simp
qed

lemma capitalize_words_lower: "capitalize_words b (str_lower s) = capitalize_words b s"
proof (induction s arbitrary: b)
  case Nil
  show ?case by (simp add: str_lower_def)
next
  case (Cons c s)
  then show ?case
    by (simp add: str_lower_def lower_char_eq_underscore upper_lower_char lower_lower_char)
qed

text \<open>
  Putting the underscores of the snake form into a text changes its word capitalization
  exactly when one of them falls inside a word.
\<close>

lemma capitalize_words_boundaries:
  "(capitalize_words b (insert_boundaries x) = capitalize_words b x) \<longleftrightarrow> \<not> inner_boundary x"
proof (induction x arbitrary: b rule: insert_boundaries.induct)
  case (1 c u rest)
  obtain t where t: "insert_boundaries (u # rest) = u # t"
    using insert_boundaries_head by blast
  show ?case
  proof (cases "boundary c u rest")
    case True
    then have up: "is_upper u" by (simp add: boundary_def)
    show ?thesis
    proof (cases "c = CHR ''_''")
      case c: True
      show ?thesis using True c "1.IH" [of True] by simp
    next
      case c: False
      have "capitalize_words True (u # t) \<noteq> capitalize_words False (u # rest)"
        using up lower_char_upper_neq [OF up] by (auto dest: upper_not_underscore)
      then show ?thesis using True c t by simp
    qed
  next
    case False
    show ?thesis
      using False "1.IH" [of True] "1.IH" [of False] by simp
  qed
next
  case (2 c)
  show ?case by simp
next
  case 3
  show ?case by simp
qed

lemma set_insert_boundaries: "set (insert_boundaries x) = set x \<union> (set (insert_boundaries x) \<inter> {CHR ''_''})"
  by (induction x rule: insert_boundaries.induct) auto

lemma capitalize_words_keeps:
  assumes "\<not> is_upper k" and "\<not> is_lower k" and "k \<noteq> CHR ''_''"
  shows "k \<in> set (capitalize_words b s) \<longleftrightarrow> k \<in> set s"
proof (induction s arbitrary: b)
  case Nil
  show ?case by simp
next
  case (Cons c s)
  show ?case
    using Cons [of True] Cons [of False] assms(3) not_letter_case [OF assms(1,2), of c]
    by auto
qed

lemma str_lower_keeps:
  assumes "\<not> is_upper k" and "\<not> is_lower k"
  shows "k \<in> set (str_lower s) \<longleftrightarrow> k \<in> set s"
proof -
  have "k = lower_char d \<longleftrightarrow> d = k" for d
    using not_letter_case [OF assms, of d] by auto
  then show ?thesis
    by (simp add: str_lower_def image_iff)
qed

lemma word_capitalize_snake_keeps:
  assumes "\<not> is_upper k" and "\<not> is_lower k" and "k \<noteq> CHR ''_''"
  shows "k \<in> set (word_capitalize (to_snake_case x)) \<longleftrightarrow> k \<in> set x"
proof -
  have "k \<in> set (insert_boundaries x) \<longleftrightarrow> k \<in> set x"
    using set_insert_boundaries [of x] assms(3) by auto
  then show ?thesis
    by (simp add: word_capitalize_words to_snake_case_boundaries
        capitalize_words_keeps [OF assms] str_lower_keeps [OF assms(1,2)])
qed

lemma to_pascal_case_drops:
  "CHR ''-'' \<notin> set (to_pascal_case x) \<and> CHR '' '' \<notin> set (to_pascal_case x)"
proof -
  let ?y = "str_replace (CHR '' '') ''_'' (str_replace (CHR ''-'') ''_'' x)"
  have y: "CHR ''-'' \<notin> set ?y \<and> CHR '' '' \<notin> set ?y"
    by (auto simp: str_replace_char)
  have p: "to_pascal_case x = capitalize_words True ?y"
    by (simp add: to_pascal_case_def capitalize_words_split)
  have d: "\<not> is_upper (CHR ''-'') \<and> \<not> is_lower (CHR ''-'') \<and> CHR ''-'' \<noteq> CHR ''_''"
    by (simp add: is_upper_def is_lower_def)
  have s: "\<not> is_upper (CHR '' '') \<and> \<not> is_lower (CHR '' '') \<and> CHR '' '' \<noteq> CHR ''_''"
    by (simp add: is_upper_def is_lower_def)
  show ?thesis
    unfolding p using y d s
    by (simp add: capitalize_words_keeps)
qed

lemma pascal_is_capitalized_snake:
  "to_pascal_case x = word_capitalize (to_snake_case x) \<longleftrightarrow>
     CHR ''-'' \<notin> set x \<and> CHR '' '' \<notin> set x \<and> \<not> inner_boundary x"
proof (cases "CHR ''-'' \<notin> set x \<and> CHR '' '' \<notin> set x")
  case True
  then have "to_pascal_case x = capitalize_words True x"
    by (simp add: to_pascal_case_plain word_capitalize_words)
  moreover have "word_capitalize (to_snake_case x) = capitalize_words True (insert_boundaries x)"
    by (simp add: word_capitalize_words to_snake_case_boundaries capitalize_words_lower)
  ultimately show ?thesis
    using True capitalize_words_boundaries [of True x] by auto
next
  case False
  have d: "\<not> is_upper (CHR ''-'') \<and> \<not> is_lower (CHR ''-'') \<and> CHR ''-'' \<noteq> CHR ''_''"
    by (simp add: is_upper_def is_lower_def)
  have s: "\<not> is_upper (CHR '' '') \<and> \<not> is_lower (CHR '' '') \<and> CHR '' '' \<noteq> CHR ''_''"
    by (simp add: is_upper_def is_lower_def)
  from False have "CHR ''-'' \<in> set (word_capitalize (to_snake_case x)) \<or>
                   CHR '' '' \<in> set (word_capitalize (to_snake_case x))"
    using word_capitalize_snake_keeps [of "CHR ''-''" x]
      word_capitalize_snake_keeps [of "CHR '' ''" x] d s by blast
  then have "to_pascal_case x \<noteq> word_capitalize (to_snake_case x)"
    using to_pascal_case_drops [of x] by auto
  with False show ?thesis by blast
qed

lemma no_upper_no_boundary: "\<forall>c \<in> set x. \<not> is_upper c \<Longrightarrow> \<not> inner_boundary x"
  by (induction x rule: inner_boundary.induct) (auto simp: boundary_def)

text \<open>
  C6, amended. Kebab case is snake case with every underscore replaced by a hyphen.
  For an ASCII name, Pascal case is the word-capitalized snake form exactly when the
  name has no hyphen and no space and the snake conversion finds no word boundary
  inside one of its words; a name without upper-case letters has no such boundary.
\<close>

theorem case_conversions_consistent:
  assumes "ascii_text x"
  shows "to_kebab_case x =
           map (\<lambda>c. if c = CHR ''_'' then CHR ''-'' else c) (to_snake_case x) \<and>
         (to_pascal_case x = word_capitalize (to_snake_case x) \<longleftrightarrow>
            CHR ''-'' \<notin> set x \<and> CHR '' '' \<notin> set x \<and> \<not> inner_boundary x) \<and>
         ((\<forall>c \<in> set x. \<not> is_upper c) \<longrightarrow> \<not> inner_boundary x)"
proof -
  have "to_kebab_case x = map (\<lambda>c. if c = CHR ''_'' then CHR ''-'' else c) (to_snake_case x)"
    by (simp add: to_kebab_case_def str_replace_char)
  then show ?thesis
    using pascal_is_capitalized_snake [of x] no_upper_no_boundary [of x] by blast
qed

theorem case_conversions_consistent_witness:
  "ascii_text ''gpio_Message'' \<and>
   to_snake_case ''gpio_Message'' = ''gpio__message'' \<and>
   to_kebab_case ''gpio_Message'' = ''gpio--message'' \<and>
   CHR ''-'' \<notin> set ''gpio_Message'' \<and> CHR '' '' \<notin> set ''gpio_Message'' \<and>
   inner_boundary ''gpio_Message'' = False \<and>
   to_pascal_case ''gpio_Message'' = word_capitalize (to_snake_case ''gpio_Message'') \<and>
   to_pascal_case ''gpio_Message'' = ''GpioMessage''"
proof -
  have a: "ascii_text ''gpio_Message''"
    by code_simp
  have s: "to_snake_case ''gpio_Message'' = ''gpio__message''"
    by code_simp
  have k: "map (\<lambda>c. if c = CHR ''_'' then CHR ''-'' else c) ''gpio__message'' = ''gpio--message''"
    by simp
  have n: "CHR ''-'' \<notin> set ''gpio_Message'' \<and> CHR '' '' \<notin> set ''gpio_Message''"
    by simp
  have b: "inner_boundary ''gpio_Message'' = False"
    by code_simp
  have p: "to_pascal_case ''gpio_Message'' = ''GpioMessage''"
    by code_simp
  from case_conversions_consistent [OF a] n b
  have "to_kebab_case ''gpio_Message'' =
          map (\<lambda>c. if c = CHR ''_'' then CHR ''-'' else c) (to_snake_case ''gpio_Message'')"
    and "to_pascal_case ''gpio_Message'' = word_capitalize (to_snake_case ''gpio_Message'')"
    by blast+
  with a s k n b p show ?thesis
    by (simp only: simp_thms)
qed

text \<open>
  C6 as it is written fails on a name with an inner capital: the snake form of
  \<^verbatim>\<open>GpioMessage\<close> has two words, while \<^verbatim>\<open>to_pascal_case\<close> sees one segment and
  lower-cases all of it but the first letter.
\<close>

theorem pascal_not_word_capitalized_snake:
  "to_pascal_case ''GpioMessage'' = ''Gpiomessage'' \<and>
   word_capitalize (to_snake_case ''GpioMessage'') = ''GpioMessage'' \<and>
   to_pascal_case ''GpioMessage'' \<noteq> word_capitalize (to_snake_case ''GpioMessage'')"
  by code_simp

section \<open>Properties of the code emitter\<close>

lemma emit_enum_values_append:
  \<open>emit_enum_values enum_values code =
     code @ concat (map (\<lambda>v. ''    '' @ const_name v @ '' = "'' @ v @ ''"\<newline>'') enum_values)\<close>
  by (induction enum_values arbitrary: code) simp_all


lemma emit_enum_append: "emit_enum schema_name schema code = code @ emit_enum schema_name schema []"
  by (simp add: emit_enum_def emit_enum_values_append Let_def split: option.splits)

lemma emit_enums_append: "emit_enums schemas code = code @ emit_enums schemas []"
proof (induction schemas arbitrary: code)
  case Nil
  show ?case by simp
next
  case (Cons p schemas)
  obtain n s where p: "p = (n, s)" by (cases p)
  show ?case
    using Cons [of "emit_enum n s code"] Cons [of "emit_enum n s []"]
      emit_enum_append [of n s code]
    by (simp add: p)
qed


lemma emit_required_field_append:
  "emit_required_field prop_name prop_schema schemas code =
     code @ emit_required_field prop_name prop_schema schemas []"
  by (simp add: emit_required_field_def Let_def)

lemma emit_optional_field_append:
  "emit_optional_field prop_name prop_schema schemas code =
     code @ emit_optional_field prop_name prop_schema schemas []"
  by (simp add: emit_optional_field_def Let_def)

lemma emit_required_fields_append:
  "emit_required_fields properties required schemas code =
     code @ concat (map (\<lambda>(n, s). emit_required_field n s schemas [])
                     (filter (\<lambda>(n, s). n \<in> set required) properties))"
proof (induction properties arbitrary: code)
  case Nil
  show ?case by simp
next
  case (Cons p properties)
  obtain n s where p: "p = (n, s)" by (cases p)
  show ?case
    using Cons [of "emit_required_field n s schemas code"] Cons [of code]
      emit_required_field_append [of n s schemas code]
    by (simp add: p set_contains_def)
qed

lemma emit_optional_fields_append:
  "emit_optional_fields properties required schemas code =
     code @ concat (map (\<lambda>(n, s). emit_optional_field n s schemas [])
                     (filter (\<lambda>(n, s). n \<notin> set required) properties))"
proof (induction properties arbitrary: code)
  case Nil
  show ?case by simp
next
  case (Cons p properties)
  obtain n s where p: "p = (n, s)" by (cases p)
  show ?case
    using Cons [of "emit_optional_field n s schemas code"] Cons [of code]
      emit_optional_field_append [of n s schemas code]
    by (simp add: p set_contains_def)
qed

lemma set_py_set: "keeps_elements hash_order \<Longrightarrow> set (py_set hash_order xs) = set xs"
  by (simp add: keeps_elements_def py_set_def)

text \<open>The record of one object schema, for a run whose hash order keeps the elements.\<close>

lemma emit_dataclass_record:
  assumes "keeps_elements hash_order"
  shows "emit_dataclass hash_order schema_name schema schemas code =
           code @
           (if schema_type schema = Some ''object'' then
              dataclass_header (to_pascal_case schema_name)
                (dict_get (schema_description schema) (''Data class for '' @ schema_name))
              @ concat (map (\<lambda>(n, s). emit_required_field n s schemas [])
                  (filter (\<lambda>(n, s). n \<in> set (dict_get (schema_required schema) []))
                     (dict_get (schema_properties schema) [])))
              @ concat (map (\<lambda>(n, s). emit_optional_field n s schemas [])
                  (filter (\<lambda>(n, s). n \<notin> set (dict_get (schema_required schema) []))
                     (dict_get (schema_properties schema) [])))
            else [])"
  by (simp add: emit_dataclass_def Let_def emit_required_fields_append
      emit_optional_fields_append set_py_set [OF assms])

lemma emit_dataclass_append:
  "emit_dataclass hash_order schema_name schema schemas code =
     code @ emit_dataclass hash_order schema_name schema schemas []"
  by (simp add: emit_dataclass_def Let_def emit_required_fields_append
      emit_optional_fields_append)

lemma emit_dataclasses_append:
  "emit_dataclasses hash_order todo schemas code =
     code @ emit_dataclasses hash_order todo schemas []"
proof (induction todo arbitrary: code)
  case Nil
  show ?case by simp
next
  case (Cons p todo)
  obtain n s where p: "p = (n, s)" by (cases p)
  show ?case
    using Cons [of "emit_dataclass hash_order n s schemas code"]
      Cons [of "emit_dataclass hash_order n s schemas []"]
      emit_dataclass_append [of hash_order n s schemas code]
    by (simp add: p)
qed

lemma emit_dataclasses_split:
  "emit_dataclasses hash_order (before @ (schema_name, schema) # after) schemas [] =
     emit_dataclasses hash_order before schemas []
     @ emit_dataclass hash_order schema_name schema schemas []
     @ emit_dataclasses hash_order after schemas []"
proof (induction before)
  case Nil
  show ?case
    using emit_dataclasses_append
      [of hash_order after schemas "emit_dataclass hash_order schema_name schema schemas []"]
    by simp
next
  case (Cons p before)
  obtain n s where p: "p = (n, s)" by (cases p)
  show ?case
    using Cons
      emit_dataclasses_append [of hash_order "before @ (schema_name, schema) # after" schemas
        "emit_dataclass hash_order n s schemas []"]
      emit_dataclasses_append [of hash_order before schemas
        "emit_dataclass hash_order n s schemas []"]
    by (simp add: p)
qed

lemma emit_dataclasses_order:
  assumes "keeps_elements hash_order1" and "keeps_elements hash_order2"
  shows "emit_dataclasses hash_order1 todo schemas code =
         emit_dataclasses hash_order2 todo schemas code"
proof (induction todo arbitrary: code)
  case Nil
  show ?case by simp
next
  case (Cons p todo)
  obtain n s where p: "p = (n, s)" by (cases p)
  have "emit_dataclass hash_order1 n s schemas code = emit_dataclass hash_order2 n s schemas code"
    by (simp only: emit_dataclass_record [OF assms(1)] emit_dataclass_record [OF assms(2)])
  then show ?case using Cons by (simp add: p)
qed

lemma emit_channel_methods_append:
  "emit_channel_methods messages code = code @ emit_channel_methods messages []"
proof (induction messages arbitrary: code)
  case Nil
  show ?case by simp
next
  case (Cons m messages)
  obtain message_name message_spec where m: "m = (message_name, message_spec)" by (cases m)
  show ?case
    using Cons [of "code @ message_methods (str_lower (to_snake_case message_name)) message_name"]
      Cons [of "message_methods (str_lower (to_snake_case message_name)) message_name"]
    by (simp add: m)
qed

lemma emit_message_methods_append:
  "emit_message_methods channels code = code @ emit_message_methods channels []"
proof (induction channels arbitrary: code)
  case Nil
  show ?case by simp
next
  case (Cons c channels)
  obtain channel_name channel where c: "c = (channel_name, channel)" by (cases c)
  show ?case
    using Cons [of "emit_channel_methods (dict_get (channel_messages channel) []) code"]
      Cons [of "emit_channel_methods (dict_get (channel_messages channel) []) []"]
      emit_channel_methods_append [of "dict_get (channel_messages channel) []" code]
    by (simp add: c)
qed

lemma emit_channel_handlers_append:
  "emit_channel_handlers messages code = code @ emit_channel_handlers messages []"
proof (induction messages arbitrary: code)
  case Nil
  show ?case by simp
next
  case (Cons m messages)
  obtain message_name message_spec where m: "m = (message_name, message_spec)" by (cases m)
  show ?case
    using Cons [of "code @ example_handler (str_lower (to_snake_case message_name)) message_name"]
      Cons [of "example_handler (str_lower (to_snake_case message_name)) message_name"]
    by (simp add: m)
qed

lemma emit_example_handlers_append:
  "emit_example_handlers channels code = code @ emit_example_handlers channels []"
proof (induction channels arbitrary: code)
  case Nil
  show ?case by simp
next
  case (Cons c channels)
  obtain channel_name channel where c: "c = (channel_name, channel)" by (cases c)
  show ?case
    using Cons [of "emit_channel_handlers (dict_get (channel_messages channel) []) code"]
      Cons [of "emit_channel_handlers (dict_get (channel_messages channel) []) []"]
      emit_channel_handlers_append [of "dict_get (channel_messages channel) []" code]
    by (simp add: c)
qed

text \<open>The sections of the emitted module, in their order.\<close>

lemma generate_client_code_sections:
  "generate_client_code hash_order title description server_url schemas channels =
     module_header title description
     @ emit_enums schemas []
     @ ''\<newline>\<newline># Generated Data Classes''
     @ emit_dataclasses hash_order schemas schemas []
     @ client_class (client_class_name_of title) title description server_url
     @ emit_message_methods channels []
     @ main_header title (client_class_name_of title)
     @ emit_example_handlers channels []
     @ main_footer"
  unfolding generate_client_code_def Let_def
  by (subst emit_example_handlers_append, subst emit_message_methods_append,
      subst emit_dataclasses_append, subst emit_enums_append) simp

lemma generate_client_code_class:
  "\<exists>before after.
     generate_client_code hash_order title description server_url schemas channels =
       before @ client_class (client_class_name_of title) title description server_url @ after"
proof -
  have "generate_client_code hash_order title description server_url schemas channels =
          (module_header title description @ emit_enums schemas []
             @ ''\<newline>\<newline># Generated Data Classes''
             @ emit_dataclasses hash_order schemas schemas [])
          @ client_class (client_class_name_of title) title description server_url
          @ (emit_message_methods channels []
             @ main_header title (client_class_name_of title)
             @ emit_example_handlers channels [] @ main_footer)"
    by (simp add: generate_client_code_sections)
  then show ?thesis by blast
qed



text \<open>
  C7. For every object schema of the table, the emitted module holds, at the place of
  the schema in the record section, the header of the record, then the lines of the
  properties named in \<^verbatim>\<open>required\<close>, in the order of \<^verbatim>\<open>properties\<close>, then the lines of the
  other properties, in the order of \<^verbatim>\<open>properties\<close>, whatever the hash order of the run.
  With \<^verbatim>\<open>required: ["a"]\<close> the field \<^verbatim>\<open>a\<close> comes before the optional field \<^verbatim>\<open>b\<close>.
\<close>

theorem record_field_order:
  assumes "schemas = before @ (schema_name, schema) # after"
    and "schema_type schema = Some ''object''"
    and "keeps_elements hash_order"
  shows "generate_client_code hash_order title description server_url schemas channels =
           module_header title description
           @ emit_enums schemas []
           @ ''\<newline>\<newline># Generated Data Classes''
           @ emit_dataclasses hash_order before schemas []
           @ dataclass_header (to_pascal_case schema_name)
               (dict_get (schema_description schema) (''Data class for '' @ schema_name))
           @ concat (map (\<lambda>(n, s). emit_required_field n s schemas [])
               (filter (\<lambda>(n, s). n \<in> set (dict_get (schema_required schema) []))
                  (dict_get (schema_properties schema) [])))
           @ concat (map (\<lambda>(n, s). emit_optional_field n s schemas [])
               (filter (\<lambda>(n, s). n \<notin> set (dict_get (schema_required schema) []))
                  (dict_get (schema_properties schema) [])))
           @ emit_dataclasses hash_order after schemas []
           @ client_class (client_class_name_of title) title description server_url
           @ emit_message_methods channels []
           @ main_header title (client_class_name_of title)
           @ emit_example_handlers channels []
           @ main_footer"
  using assms(2)
  by (simp add: generate_client_code_sections assms(1) emit_dataclasses_split
      emit_dataclass_record [OF assms(3), of schema_name schema _ "[]"])

theorem record_field_order_witness:
  "[(''rec'', Schema None (Some ''object'') None None None
        (Some [(''b'', Schema None (Some ''integer'') None None None None None None),
               (''a'', Schema None (Some ''string'') None None None None None None)])
        (Some [''a'']) None)]
     = [] @ (''rec'', Schema None (Some ''object'') None None None
        (Some [(''b'', Schema None (Some ''integer'') None None None None None None),
               (''a'', Schema None (Some ''string'') None None None None None None)])
        (Some [''a'']) None) # [] \<and>
   schema_type
     (Schema None (Some ''object'') None None None
        (Some [(''b'', Schema None (Some ''integer'') None None None None None None),
               (''a'', Schema None (Some ''string'') None None None None None None)])
        (Some [''a'']) None) = Some ''object'' \<and>
   keeps_elements reversed_order \<and>
   generate_client_code reversed_order ''Records'' ''Record events'' ''wss://127.0.0.1''
     [(''rec'', Schema None (Some ''object'') None None None
        (Some [(''b'', Schema None (Some ''integer'') None None None None None None),
               (''a'', Schema None (Some ''string'') None None None None None None)])
        (Some [''a'']) None)]
     ([] :: (string \<times> unit channel) list)
     = module_header ''Records'' ''Record events''
       @ ''\<newline>\<newline># Generated Data Classes''
       @ dataclass_header ''Rec'' ''Data class for rec''
       @ ''    a: str\<newline>'' @ ''    b: Optional[int] = None\<newline>''
       @ client_class (client_class_name_of ''Records'') ''Records'' ''Record events''
           ''wss://127.0.0.1''
       @ main_header ''Records'' (client_class_name_of ''Records'')
       @ main_footer"
proof -
  let ?a = "Schema None (Some ''string'') None None None None None None"
  let ?b = "Schema None (Some ''integer'') None None None None None None"
  let ?ba = "Schema None (Some ''object'') None None None (Some [(''b'', ?b), (''a'', ?a)])
               (Some [''a'']) None"
  have h0: "[(''rec'', ?ba)] = [] @ (''rec'', ?ba) # []" by simp
  have h1: "schema_type ?ba = Some ''object''" by simp
  have h2: "keeps_elements reversed_order"
    by (simp add: keeps_elements_def reversed_order_def)
  have n: "to_pascal_case ''rec'' = ''Rec''" by code_simp
  have fa: "emit_required_field ''a'' ?a [(''rec'', ?ba)] [] = ''    a: str\<newline>''"
    by code_simp
  have fb: "emit_optional_field ''b'' ?b [(''rec'', ?ba)] []
              = ''    b: Optional[int] = None\<newline>''"
    by code_simp
  have e: "emit_enums [(''rec'', ?ba)] [] = []"
    by (simp add: emit_enum_def)
  from record_field_order [OF h0 h1 h2, of "''Records''" "''Record events''"
      "''wss://127.0.0.1''" "[] :: (string \<times> unit channel) list"] n fa fb e h1 h2
  show ?thesis by (simp add: dict_get_def)
qed

text \<open>
  C1. The text that the emitter returns for a title, a description, a server URL, a
  schema table and a channel table does not depend on the run: the one thing that
  differs between two runs of the interpreter on the same values is the order in which
  a set lays out its elements, and two runs with different hash orders emit the same
  text. Every dictionary is walked in the order of the document, and the emitter has no
  other input.
\<close>

theorem generate_client_code_deterministic:
  assumes "keeps_elements hash_order1" and "keeps_elements hash_order2"
  shows "generate_client_code hash_order1 title description server_url schemas channels =
         generate_client_code hash_order2 title description server_url schemas channels"
  by (simp only: generate_client_code_sections emit_dataclasses_order [OF assms])

theorem generate_client_code_deterministic_witness:
  "keeps_elements listed_order \<and> keeps_elements reversed_order \<and>
   py_set listed_order [''a'', ''b''] = [''a'', ''b''] \<and>
   py_set reversed_order [''a'', ''b''] = [''b'', ''a''] \<and>
   generate_client_code listed_order ''Records'' ''Record events'' ''wss://127.0.0.1''
     [(''rec'', Schema None (Some ''object'') None None None
        (Some [(''b'', Schema None (Some ''integer'') None None None None None None),
               (''a'', Schema None (Some ''string'') None None None None None None)])
        (Some [''a'', ''b'']) None)]
     [(''gpio'', Channel (Some [(''GpioMessage'', ())]))]
   = generate_client_code reversed_order ''Records'' ''Record events'' ''wss://127.0.0.1''
     [(''rec'', Schema None (Some ''object'') None None None
        (Some [(''b'', Schema None (Some ''integer'') None None None None None None),
               (''a'', Schema None (Some ''string'') None None None None None None)])
        (Some [''a'', ''b'']) None)]
     [(''gpio'', Channel (Some [(''GpioMessage'', ())]))]"
proof -
  have h1: "keeps_elements listed_order"
    by (simp add: keeps_elements_def listed_order_def)
  have h2: "keeps_elements reversed_order"
    by (simp add: keeps_elements_def reversed_order_def)
  have p1: "py_set listed_order [''a'', ''b''] = [''a'', ''b'']"
    by (simp add: py_set_def listed_order_def)
  have p2: "py_set reversed_order [''a'', ''b''] = [''b'', ''a'']"
    by (simp add: py_set_def reversed_order_def)
  from generate_client_code_deterministic [OF h1 h2] h1 h2 p1 p2 show ?thesis
    by (simp only: simp_thms)
qed

lemma get_python_type_ref:
  "schema_ref schema = Some r \<Longrightarrow>
     get_python_type schema all_schemas = to_pascal_case (last (str_split (CHR ''/'') r))"
  by (subst get_python_type.simps) simp

lemma get_python_type_table:
  "get_python_type schema all_schemas = get_python_type schema other_schemas"
proof (induction schema all_schemas rule: get_python_type.induct)
  case (1 schema all_schemas)
  show ?case
  proof (cases "schema_ref schema")
    case (Some r)
    then show ?thesis by (simp only: get_python_type_ref)
  next
    case None
    show ?thesis
    proof (cases "dict_get (schema_type schema) ''Any'' = ''array''")
      case True
      then have "get_python_type (dict_get (schema_items schema) empty_schema) all_schemas =
                 get_python_type (dict_get (schema_items schema) empty_schema) other_schemas"
        using "1.IH" [OF None refl] by simp
      then show ?thesis
        by (subst get_python_type.simps, subst (2) get_python_type.simps)
           (simp add: None Let_def)
    next
      case False
      then show ?thesis
        by (subst get_python_type.simps, subst (2) get_python_type.simps)
           (simp add: None Let_def)
    qed
  qed
qed

text \<open>
  C2, amended. A property with a reference gets the Pascal case of the last segment of
  the reference as its type, whether the schema table has a schema of that name or not:
  the table has no influence on the type of any schema. The type mapper is a total
  function, so the emission of the other fields and schemas goes on.
\<close>

theorem reference_type_ignores_table:
  "(schema_ref schema = Some r \<longrightarrow>
      get_python_type schema all_schemas = to_pascal_case (last (str_split (CHR ''/'') r))) \<and>
   get_python_type schema all_schemas = get_python_type schema []"
  using get_python_type_ref [of schema r all_schemas] get_python_type_table [of schema all_schemas "[]"]
  by blast

theorem reference_type_ignores_table_witness:
  "schema_ref (Schema (Some ''#/components/schemas/gpio_status'') None None None None None None None)
     = Some ''#/components/schemas/gpio_status'' \<and>
   get_python_type
     (Schema (Some ''#/components/schemas/gpio_status'') None None None None None None None) []
     = ''GpioStatus''"
proof -
  let ?s = "Schema (Some ''#/components/schemas/gpio_status'') None None None None None None None"
  have h: "schema_ref ?s = Some ''#/components/schemas/gpio_status''" by simp
  have e: "to_pascal_case (last (str_split (CHR ''/'') ''#/components/schemas/gpio_status''))
             = ''GpioStatus''"
    by code_simp
  from reference_type_ignores_table [of ?s "''#/components/schemas/gpio_status''" "[]"] h e
  show ?thesis by (simp only: simp_thms)
qed

text \<open>
  C2 as it is written fails: the table below has no schema \<^verbatim>\<open>Missing\<close>, and the
  property that refers to it gets the type \<^verbatim>\<open>Missing\<close>, not \<^verbatim>\<open>Any\<close>; the record is emitted
  with that name in it.
\<close>

theorem unresolved_reference_keeps_name:
  "map_of [(''Status'', Schema None (Some ''string'') (Some [''on'']) None None None None None)]
     ''Missing'' = None \<and>
   get_python_type
     (Schema (Some ''#/components/schemas/Missing'') None None None None None None None)
     [(''Status'', Schema None (Some ''string'') (Some [''on'']) None None None None None)]
     = ''Missing'' \<and>
   ''Missing'' \<noteq> ''Any'' \<and>
   emit_dataclass listed_order ''holder''
     (Schema None (Some ''object'') None None None
        (Some [(''owner'',
                Schema (Some ''#/components/schemas/Missing'') None None None None None None None),
               (''count'', Schema None (Some ''integer'') None None None None None None)])
        (Some [''owner'', ''count'']) None)
     [(''Status'', Schema None (Some ''string'') (Some [''on'']) None None None None None)] []
     = dataclass_header ''Holder'' ''Data class for holder''
       @ ''    owner: Missing\<newline>'' @ ''    count: int\<newline>''"
  by code_simp

text \<open>
  C10. The class name is the Pascal case of the title without its spaces, followed by
  \<^verbatim>\<open>Client\<close>, and the emitted module holds the class template filled with that name. A title without hyphen and underscore is then a single segment: the name is
  the capitalized title without spaces, in which no character after the first is an
  upper-case letter. The title \<^verbatim>\<open>Phobos GPIO interface API\<close> gives
  \<^verbatim>\<open>PhobosgpiointerfaceapiClient\<close>.
\<close>

theorem client_class_name_single_segment:
  assumes "CHR ''-'' \<notin> set title" and "CHR ''_'' \<notin> set title"
  shows "(\<exists>before after.
            generate_client_code hash_order title description server_url schemas channels =
              before @ client_class (client_class_name_of title) title description server_url
                @ after) \<and>
         client_class_name_of title =
           to_pascal_case (filter (\<lambda>c. c \<noteq> CHR '' '') title) @ ''Client'' \<and>
         client_class_name_of title =
           str_capitalize (filter (\<lambda>c. c \<noteq> CHR '' '') title) @ ''Client'' \<and>
         (\<forall>c \<in> set (tl (str_capitalize (filter (\<lambda>c. c \<noteq> CHR '' '') title))). \<not> is_upper c)"
proof -
  let ?t = "filter (\<lambda>c. c \<noteq> CHR '' '') title"
  have "CHR ''-'' \<notin> set ?t" "CHR '' '' \<notin> set ?t" "CHR ''_'' \<notin> set ?t"
    using assms by simp_all
  then have "to_pascal_case ?t = str_capitalize ?t"
    by (simp add: to_pascal_case_def str_replace_absent str_split_no_sep)
  moreover have "\<forall>c \<in> set (tl (str_capitalize ?t)). \<not> is_upper c"
    by (cases ?t) (auto simp: str_lower_def not_upper_lower_char)
  ultimately show ?thesis
    using generate_client_code_class [of hash_order title description server_url schemas channels]
    by (simp add: client_class_name_of_def str_replace_delete)
qed

theorem client_class_name_single_segment_witness:
  "CHR ''-'' \<notin> set ''Phobos GPIO interface API'' \<and>
   CHR ''_'' \<notin> set ''Phobos GPIO interface API'' \<and>
   client_class_name_of ''Phobos GPIO interface API'' = ''PhobosgpiointerfaceapiClient'' \<and>
   client_class_name_of ''Phobos GPIO interface API'' \<noteq> ''PhobosGpioInterfaceApiClient''"
proof -
  have h1: "CHR ''-'' \<notin> set ''Phobos GPIO interface API''" by simp
  have h2: "CHR ''_'' \<notin> set ''Phobos GPIO interface API''" by simp
  have e: "str_capitalize (filter (\<lambda>c. c \<noteq> CHR '' '') ''Phobos GPIO interface API'')
             @ ''Client'' = ''PhobosgpiointerfaceapiClient''"
    by code_simp
  from client_class_name_single_segment [OF h1 h2, of listed_order "[]" "[]" "[]" "[] :: (string \<times> unit channel) list"]
  have "client_class_name_of ''Phobos GPIO interface API'' =
          str_capitalize (filter (\<lambda>c. c \<noteq> CHR '' '') ''Phobos GPIO interface API'')
            @ ''Client''"
    by blast
  with e have n: "client_class_name_of ''Phobos GPIO interface API'' =
                    ''PhobosgpiointerfaceapiClient''"
    by (simp only:)
  have d: "''PhobosgpiointerfaceapiClient'' \<noteq> ''PhobosGpioInterfaceApiClient''"
    by simp
  from h1 h2 n d show ?thesis
    by (simp only: simp_thms)
qed

section \<open>Properties of the generated client\<close>










text \<open>
  C3: the code at the input that breaks the claim. The client is connected with
  automatic reconnection. The transport closes and \<^verbatim>\<open>_on_close\<close> finds the flag set and
  goes to sleep; while it sleeps the caller runs \<^verbatim>\<open>disconnect\<close>, which clears the flag;
  the callback wakes and calls \<^verbatim>\<open>connect(auto_reconnect=True)\<close> without looking at the
  flag again: a second transport thread is started, the flag is set once more, and with
  a completed handshake the client is connected again. A \<^verbatim>\<open>disconnect\<close> that comes before
  the close does prevent the reconnection.
\<close>

theorem disconnect_during_delay_reconnects:
  "should_reconnect live_client \<and> threads_started live_client = 1 \<and>
   fst (on_close_begin live_client []) = True \<and>
   should_reconnect (disconnect close_app (fst (snd (on_close_begin live_client [])))) = False \<and>
   should_reconnect
     (fst (on_close_resume open_app True
        (disconnect close_app (fst (snd (on_close_begin live_client [])))) [])) = True \<and>
   threads_started
     (fst (on_close_resume open_app True
        (disconnect close_app (fst (snd (on_close_begin live_client [])))) [])) = 2 \<and>
   connected
     (fst (on_close_resume open_app True
        (disconnect close_app (fst (snd (on_close_begin live_client [])))) [])) = True \<and>
   threads_started
     (fst (on_close_resume open_app False
        (disconnect close_app (fst (snd (on_close_begin live_client [])))) [])) = 2 \<and>
   threads_started (fst (on_close open_app True (disconnect close_app live_client) [])) = 1"
  by (simp add: live_client_def fresh_client_def init_def connect_def on_open_def open_app_def
      close_app_def on_close_begin_def on_close_resume_def on_close_def disconnect_def Let_def)

end
